theory Spec2Isabelle
  imports Complex_Main "HOL-Library.Sublist"
begin

section \<open>Errors and Python values\<close>

text \<open>
  Every exception the two modules can raise is a value of \<open>error\<close>; a function that can
  raise returns \<open>error + 'a\<close>, with \<open>Inl\<close> for the exception.
\<close>

datatype error =
    IOError string
  | ValueError string
  | TypeError
  | AttributeError

datatype pyval = PyStr string | PyInt int | PyNone

section \<open>rootpy/io.py\<close>

subsection \<open>File\<close>

text \<open>
  \<^verbatim>\<open>File.__init__(self, *args, **kwargs)\<close> calls \<^verbatim>\<open>ROOT.TFile.__init__(self, *args)\<close>.
  The native constructor is a parameter; it receives the positional and the keyword
  arguments of its call, and the wrapper's call has no keyword arguments.
\<close>

definition File_init ::
  "(pyval list \<Rightarrow> (string \<times> pyval) list \<Rightarrow> 'c) \<Rightarrow> pyval list \<Rightarrow> (string \<times> pyval) list \<Rightarrow> 'c"
where
  "File_init TFile_init args kwargs = TFile_init args []"

text \<open>
  Modelled from the spec: the persisted container behind a native file, which is not
  part of the sources. It holds named entities; the native fetch \<^verbatim>\<open>TFile.Get\<close> looks
  the name up and returns the null handle (\<open>None\<close>) for a name that is absent.
\<close>

type_synonym 'h container = "string \<rightharpoonup> 'h"

definition TFile_Get :: "'h container \<Rightarrow> string \<Rightarrow> 'h option" where
  "TFile_Get self name = self name"

text \<open>
  \<^verbatim>\<open>File.Get(self, name)\<close> returns \<^verbatim>\<open>asrootpy(ROOT.TFile.Get(self, name))\<close>. The conversion
  helper \<open>asrootpy\<close> lives in \<^verbatim>\<open>rootpy.utils\<close>, outside the sources, and is a parameter.
  The method has no \<^verbatim>\<open>raise\<close> of its own.
\<close>

definition File_Get :: "('h option \<Rightarrow> 'r) \<Rightarrow> 'h container \<Rightarrow> string \<Rightarrow> error + 'r" where
  "File_Get asrootpy self name = Inr (asrootpy (TFile_Get self name))"

subsection \<open>open\<close>

text \<open>
  \<^verbatim>\<open>open(filename, mode="")\<close>. The native \<^verbatim>\<open>ROOT.TFile.Open\<close> is a parameter whose result is
  \<open>None\<close> for the null handle, the only value on which \<^verbatim>\<open>not file\<close> holds. The message is
  \<^verbatim>\<open>"No such file: '%s'" % filename\<close>.
\<close>

definition no_such_file :: "string \<Rightarrow> string" where
  "no_such_file filename = ''No such file: '' @ [CHR 0x27] @ filename @ [CHR 0x27]"

definition open_file :: "(string \<Rightarrow> string \<Rightarrow> 'h option) \<Rightarrow> string \<Rightarrow> string \<Rightarrow> error + 'h" where
  "open_file TFile_Open filename mode =
     (case TFile_Open filename mode of
        None \<Rightarrow> Inl (IOError (no_such_file filename))
      | Some file \<Rightarrow> Inr file)"

text \<open>
  A native open and a container used to run the functions: one file exists, with
  handle 7, and the container holds nothing.
\<close>

definition one_file :: "string \<Rightarrow> string \<Rightarrow> nat option" where
  "one_file filename mode = (if filename = ''data.root'' then Some 7 else None)"

definition no_entities :: "nat container" where
  "no_entities = Map.empty"

section \<open>rootpy/plotting/canvas.py: axes\<close>

text \<open>
  The histogram classes \<^verbatim>\<open>Hist\<close>, \<^verbatim>\<open>Hist2D\<close> and \<^verbatim>\<open>Hist3D\<close> come from
  \<^verbatim>\<open>rootpy.plotting.hist\<close>, outside the sources. A histogram is known here by its class
  and the positional arguments it was built from, an axis by its histogram and its name.
  The numbers of the host language (bin counts and limits) are one type \<open>'a\<close> with the
  literals \<open>0\<close> and \<open>1\<close>. A limits argument is \<open>None\<close> or a pair, read by
  \<^verbatim>\<open>xlimits[0]\<close> and \<^verbatim>\<open>xlimits[1]\<close>.
\<close>

datatype 'a hist = Hist "'a list" | Hist2D "'a list" | Hist3D "'a list"

datatype axis_name = Xaxis | Yaxis | Zaxis

datatype 'a axis = Axis "'a hist" axis_name

definition xaxis :: "'a hist \<Rightarrow> 'a axis" where
  "xaxis hist = Axis hist Xaxis"

definition yaxis :: "'a hist \<Rightarrow> 'a axis" where
  "yaxis hist = Axis hist Yaxis"

definition zaxis :: "'a hist \<Rightarrow> 'a axis" where
  "zaxis hist = Axis hist Zaxis"

text \<open>
  What \<open>axes\<close> changes: the histograms drawn, each with its draw option, and the limits
  assigned to axis objects (\<^verbatim>\<open>xaxis.limits = xlimits\<close>), both in the order of the calls.
\<close>

record 'a display =
  drawn :: "('a hist \<times> string) list"
  limits :: "('a axis \<times> 'a \<times> 'a) list"

definition hist_Draw :: "'a hist \<Rightarrow> string \<Rightarrow> 'a display \<Rightarrow> 'a display" where
  "hist_Draw hist opt d = d\<lparr>drawn := drawn d @ [(hist, opt)]\<rparr>"

definition set_limits :: "'a axis \<Rightarrow> ('a \<times> 'a) option \<Rightarrow> 'a display \<Rightarrow> 'a display" where
  "set_limits ax new d =
     (case new of None \<Rightarrow> d | Some l \<Rightarrow> d\<lparr>limits := limits d @ [(ax, l)]\<rparr>)"

text \<open>The \<^verbatim>\<open>if ndim == 1 ... elif ... else: raise ValueError\<close> chain that builds the histogram.\<close>

definition axes_hist ::
  "int \<Rightarrow> ('a \<times> 'a) option \<Rightarrow> ('a \<times> 'a) option \<Rightarrow> ('a \<times> 'a) option \<Rightarrow>
   'a \<Rightarrow> 'a \<Rightarrow> 'a \<Rightarrow> error + ('a::{zero,one}) hist"
where
  "axes_hist ndim xlimits ylimits zlimits xbins ybins zbins =
     (if ndim = 1 then
        (case xlimits of
           Some xl \<Rightarrow> Inr (Hist [xbins, fst xl, snd xl])
         | None \<Rightarrow> Inr (Hist [xbins, 0, 1]))
      else if ndim = 2 then
        (let args = [xbins, 0, 1, ybins, 0, 1];
             args = (case xlimits of Some xl \<Rightarrow> args[1 := fst xl, 2 := snd xl] | None \<Rightarrow> args);
             args = (case ylimits of Some yl \<Rightarrow> args[4 := fst yl, 5 := snd yl] | None \<Rightarrow> args)
         in Inr (Hist2D args))
      else if ndim = 3 then
        (let args = [xbins, 0, 1, ybins, 0, 1, zbins, 0, 1];
             args = (case xlimits of Some xl \<Rightarrow> args[1 := fst xl, 2 := snd xl] | None \<Rightarrow> args);
             args = (case ylimits of Some yl \<Rightarrow> args[4 := fst yl, 5 := snd yl] | None \<Rightarrow> args);
             args = (case zlimits of Some zl \<Rightarrow> args[7 := fst zl, 8 := snd zl] | None \<Rightarrow> args)
         in Inr (Hist3D args))
      else Inl (ValueError ''ndim must be 1, 2, or 3''))"

text \<open>
  \<^verbatim>\<open>_PadBase.axes\<close>: after the histogram is built it is drawn with the option \<^verbatim>\<open>'AXIS'\<close>,
  the limits that were given are assigned (those of the z axis only when \<^verbatim>\<open>ndim > 1\<close>),
  and the axis objects are returned as a tuple, here a list.
\<close>

definition PadBase_axes ::
  "int \<Rightarrow> ('a \<times> 'a) option \<Rightarrow> ('a \<times> 'a) option \<Rightarrow> ('a \<times> 'a) option \<Rightarrow>
   'a \<Rightarrow> 'a \<Rightarrow> 'a \<Rightarrow> 'a display \<Rightarrow> (error + ('a::{zero,one}) axis list) \<times> 'a display"
where
  "PadBase_axes ndim xlimits ylimits zlimits xbins ybins zbins d =
     (case axes_hist ndim xlimits ylimits zlimits xbins ybins zbins of
        Inl e \<Rightarrow> (Inl e, d)
      | Inr hist \<Rightarrow>
          (let d = hist_Draw hist ''AXIS'' d;
               d = set_limits (xaxis hist) xlimits d;
               d = set_limits (yaxis hist) ylimits d;
               d = (if ndim > 1 then set_limits (zaxis hist) zlimits d else d)
           in if ndim > 1 then (Inr [xaxis hist, yaxis hist, zaxis hist], d)
              else (Inr [xaxis hist, yaxis hist], d)))"

text \<open>A display on which nothing has been drawn, with integers as numbers.\<close>

definition blank :: "int display" where
  "blank = \<lparr>drawn = [], limits = []\<rparr>"

section \<open>rootpy/plotting/canvas.py: pixel geometry of pads\<close>

text \<open>
  Surfaces are objects of the toolkit, known by their address; Python's \<^verbatim>\<open>is\<close> compares
  addresses, and \<open>None\<close> is the null handle. A surface has its class, its normalized
  width and height, the native pointers to its mother and to its canvas, and (read on a
  canvas only) the paintable pixel size.

  The floating-point numbers of the host language are a type \<open>'f\<close> with their operations
  taken as parameters: the product \<^verbatim>\<open>*\<close> of two floats, the conversion of an integer that
  \<^verbatim>\<open>*\<close> applies to an integer operand, and \<^verbatim>\<open>int(...)\<close>, which can raise. No law of
  arithmetic is assumed of them.
\<close>

type_synonym addr = nat

datatype cls = Pad | Canvas

record 'f surface =
  cls :: cls
  GetWNDC :: 'f
  GetHNDC :: 'f
  GetMother :: "addr option"
  GetCanvas :: "addr option"
  GetWw :: int
  GetWh :: int

type_synonym 'f heap = "addr \<Rightarrow> 'f surface"

record 'f arithmetic =
  mul :: "'f \<Rightarrow> 'f \<Rightarrow> 'f"
  from_int :: "int \<Rightarrow> 'f"
  to_int :: "'f \<Rightarrow> error + int"

text \<open>
  The properties \<^verbatim>\<open>mother\<close> and \<^verbatim>\<open>canvas\<close> of \<^verbatim>\<open>_PadBase\<close>; the conversion helper is a
  parameter. The property \<^verbatim>\<open>width\<close> is \<^verbatim>\<open>GetWNDC()\<close> on a pad and \<^verbatim>\<open>GetWw()\<close> on a canvas,
  and \<^verbatim>\<open>height\<close> likewise.
\<close>

definition PadBase_mother :: "(addr option \<Rightarrow> addr option) \<Rightarrow> 'f heap \<Rightarrow> addr \<Rightarrow> addr option" where
  "PadBase_mother asrootpy h self = asrootpy (GetMother (h self))"

definition PadBase_canvas :: "(addr option \<Rightarrow> addr option) \<Rightarrow> 'f heap \<Rightarrow> addr \<Rightarrow> addr option" where
  "PadBase_canvas asrootpy h self = asrootpy (GetCanvas (h self))"

definition width :: "'f arithmetic \<Rightarrow> 'f surface \<Rightarrow> 'f" where
  "width ar s = (case cls s of Pad \<Rightarrow> GetWNDC s | Canvas \<Rightarrow> from_int ar (GetWw s))"

definition height :: "'f arithmetic \<Rightarrow> 'f surface \<Rightarrow> 'f" where
  "height ar s = (case cls s of Pad \<Rightarrow> GetHNDC s | Canvas \<Rightarrow> from_int ar (GetWh s))"

text \<open>
  The loop \<^verbatim>\<open>while mother is not canvas: w *= mother.GetWNDC(); mother = mother.mother\<close>.
  It returns the product and the surface it stopped at; a call on the null handle raises
  \<open>AttributeError\<close>; \<open>None\<close> is the loop that never ends.
\<close>

partial_function (option) width_pixels_loop ::
  "(addr option \<Rightarrow> addr option) \<Rightarrow> 'f arithmetic \<Rightarrow> 'f heap \<Rightarrow> addr option \<Rightarrow> addr option \<Rightarrow> 'f
     \<Rightarrow> (error + 'f \<times> addr option) option"
where
  "width_pixels_loop asrootpy ar h canvas' mother' w =
     (if mother' \<noteq> canvas' then
        (case mother' of
           None \<Rightarrow> Some (Inl AttributeError)
         | Some m \<Rightarrow>
             width_pixels_loop asrootpy ar h canvas'
               (PadBase_mother asrootpy h m) (mul ar w (GetWNDC (h m))))
      else Some (Inr (w, mother')))"

partial_function (option) height_pixels_loop ::
  "(addr option \<Rightarrow> addr option) \<Rightarrow> 'f arithmetic \<Rightarrow> 'f heap \<Rightarrow> addr option \<Rightarrow> addr option \<Rightarrow> 'f
     \<Rightarrow> (error + 'f \<times> addr option) option"
where
  "height_pixels_loop asrootpy ar h canvas' mother' hh =
     (if mother' \<noteq> canvas' then
        (case mother' of
           None \<Rightarrow> Some (Inl AttributeError)
         | Some m \<Rightarrow>
             height_pixels_loop asrootpy ar h canvas'
               (PadBase_mother asrootpy h m) (mul ar hh (GetHNDC (h m))))
      else Some (Inr (hh, mother')))"

text \<open>
  \<^verbatim>\<open>Pad.width_pixels\<close> and \<^verbatim>\<open>Pad.height_pixels\<close>: the loop, then
  \<^verbatim>\<open>int(w * mother.width)\<close> on the surface the loop stopped at.
\<close>

definition Pad_width_pixels ::
  "(addr option \<Rightarrow> addr option) \<Rightarrow> 'f arithmetic \<Rightarrow> 'f heap \<Rightarrow> addr \<Rightarrow> (error + int) option"
where
  "Pad_width_pixels asrootpy ar h self =
     (let mother' = PadBase_mother asrootpy h self;
          canvas' = PadBase_canvas asrootpy h self;
          w = GetWNDC (h self)
      in case width_pixels_loop asrootpy ar h canvas' mother' w of
           None \<Rightarrow> None
         | Some (Inl e) \<Rightarrow> Some (Inl e)
         | Some (Inr (w, None)) \<Rightarrow> Some (Inl AttributeError)
         | Some (Inr (w, Some m)) \<Rightarrow> Some (to_int ar (mul ar w (width ar (h m)))))"

definition Pad_height_pixels ::
  "(addr option \<Rightarrow> addr option) \<Rightarrow> 'f arithmetic \<Rightarrow> 'f heap \<Rightarrow> addr \<Rightarrow> (error + int) option"
where
  "Pad_height_pixels asrootpy ar h self =
     (let mother' = PadBase_mother asrootpy h self;
          canvas' = PadBase_canvas asrootpy h self;
          hh = GetHNDC (h self)
      in case height_pixels_loop asrootpy ar h canvas' mother' hh of
           None \<Rightarrow> None
         | Some (Inl e) \<Rightarrow> Some (Inl e)
         | Some (Inr (hh, None)) \<Rightarrow> Some (Inl AttributeError)
         | Some (Inr (hh, Some m)) \<Rightarrow> Some (to_int ar (mul ar hh (height ar (h m)))))"

text \<open>
  The mother chain of a surface, as the properties of the claims speak of it:
  \<open>mother_chain asrootpy h a ms c\<close> holds when the mothers of \<open>a\<close>, from the nearest on,
  are the surfaces \<open>ms\<close>, none of them \<open>c\<close>, and then \<open>c\<close>; \<open>nth_mother\<close> follows the
  \<^verbatim>\<open>mother\<close> property a number of times.
\<close>

fun mother_chain ::
  "(addr option \<Rightarrow> addr option) \<Rightarrow> 'f heap \<Rightarrow> addr \<Rightarrow> addr list \<Rightarrow> addr \<Rightarrow> bool"
where
  "mother_chain asrootpy h a [] c = (PadBase_mother asrootpy h a = Some c)"
| "mother_chain asrootpy h a (m # ms) c =
     (PadBase_mother asrootpy h a = Some m \<and> m \<noteq> c \<and> mother_chain asrootpy h m ms c)"


text \<open>
  Surfaces to run the functions on, with the real numbers for \<open>'f\<close> and \<^verbatim>\<open>int\<close> rounding
  towards zero: the canvas 10 of 800 by 600 pixels, the pad 11 on it and the pad 12 on
  the pad 11. The canvas is its own mother and its own canvas, as in the toolkit.
\<close>

definition real_arithmetic :: "real arithmetic" where
  "real_arithmetic =
     \<lparr>mul = (*), from_int = of_int,
      to_int = (\<lambda>x. Inr (if 0 \<le> x then \<lfloor>x\<rfloor> else \<lceil>x\<rceil>))\<rparr>"

definition nested :: "real heap" where
  "nested a =
     (if a = 10 then
        \<lparr>cls = Canvas, GetWNDC = 1, GetHNDC = 1, GetMother = Some 10, GetCanvas = Some 10,
         GetWw = 800, GetWh = 600\<rparr>
      else if a = 11 then
        \<lparr>cls = Pad, GetWNDC = 1/2, GetHNDC = 1/3, GetMother = Some 10, GetCanvas = Some 10,
         GetWw = 0, GetWh = 0\<rparr>
      else
        \<lparr>cls = Pad, GetWNDC = 1/3, GetHNDC = 1/2, GetMother = Some 11, GetCanvas = Some 10,
         GetWw = 0, GetWh = 0\<rparr>)"

section \<open>rootpy/plotting/canvas.py: current surface and keepalive registry\<close>

text \<open>
  The process-wide state the surface methods act on: the current surface \<^verbatim>\<open>ROOT.gPad\<close>,
  the keepalive registry, the attribute \<^verbatim>\<open>_prev_pad\<close> of every surface object, and of the
  toolkit the subpads of each surface by number, the canvas of each surface
  (\<^verbatim>\<open>GetCanvas()\<close>) and the surfaces drawn so far with the arguments of the call.
\<close>

record world =
  gPad :: "addr option"
  KEEPALIVE :: "(addr option \<times> addr) list"
  prev_pad :: "addr \<Rightarrow> addr option"
  subpad :: "addr \<Rightarrow> int \<Rightarrow> addr option"
  fCanvas :: "addr \<Rightarrow> addr option"
  painted :: "(addr \<times> pyval list) list"

text \<open>
  Modelled from the spec: \<^verbatim>\<open>keepalive\<close> of \<^verbatim>\<open>rootpy.memory.keepalive\<close>, which is not part
  of the sources. The registry records ownership edges (owner, owned); registering an
  edge adds it, and the registry is kept as the list of the edges registered, oldest
  first.
\<close>

definition keepalive :: "addr option \<Rightarrow> addr \<Rightarrow> world \<Rightarrow> world" where
  "keepalive owner owned w = w\<lparr>KEEPALIVE := KEEPALIVE w @ [(owner, owned)]\<rparr>"

text \<open>
  Modelled from the spec: the native \<^verbatim>\<open>cd\<close> of the toolkit's pad class, which is not part
  of the sources. It makes a surface the current drawing target and returns it: the
  surface itself without a subpad number or with the number 0, else the subpad of that
  number; when there is no such subpad it returns the null handle and the current
  surface stays. More than one argument is a type error of the call.
\<close>

definition TPad_cd :: "addr \<Rightarrow> int list \<Rightarrow> world \<Rightarrow> (error + addr option) \<times> world" where
  "TPad_cd self args w =
     (case args of
        [] \<Rightarrow> (Inr (Some self), w\<lparr>gPad := Some self\<rparr>)
      | [n] \<Rightarrow>
          (if n = 0 then (Inr (Some self), w\<lparr>gPad := Some self\<rparr>)
           else (case subpad w self n of
                   None \<Rightarrow> (Inr None, w)
                 | Some p \<Rightarrow> (Inr (Some p), w\<lparr>gPad := Some p\<rparr>)))
      | _ \<Rightarrow> (Inl TypeError, w))"

text \<open>
  Modelled from the spec: the native \<^verbatim>\<open>Draw\<close> of the toolkit's pad class, which is not
  part of the sources. It records the surface as drawn, with the arguments of the call,
  and returns nothing.
\<close>

definition TPad_Draw :: "addr \<Rightarrow> pyval list \<Rightarrow> world \<Rightarrow> pyval \<times> world" where
  "TPad_Draw self args w = (PyNone, w\<lparr>painted := painted w @ [(self, args)]\<rparr>)"

text \<open>
  \<^verbatim>\<open>_PadBase.cd(self, *args)\<close>: the converted result of the native \<^verbatim>\<open>cd\<close>, and
  \<^verbatim>\<open>keepalive(self, pad)\<close> under the guard \<^verbatim>\<open>if pad and pad is not self\<close>.
\<close>

definition PadBase_cd ::
  "(addr option \<Rightarrow> addr option) \<Rightarrow> addr \<Rightarrow> int list \<Rightarrow> world \<Rightarrow> (error + addr option) \<times> world"
where
  "PadBase_cd asrootpy self args w =
     (case TPad_cd self args w of
        (Inl e, w) \<Rightarrow> (Inl e, w)
      | (Inr r, w) \<Rightarrow>
          (let pad = asrootpy r
           in case pad of
                None \<Rightarrow> (Inr pad, w)
              | Some p \<Rightarrow> if p \<noteq> self then (Inr pad, keepalive (Some self) p w) else (Inr pad, w)))"

text \<open>
  \<^verbatim>\<open>Pad.Draw(self, *args)\<close>: the native draw, then \<^verbatim>\<open>keepalive(canvas, self)\<close> with the
  result of \<^verbatim>\<open>self.GetCanvas()\<close>, under no guard.
\<close>

definition Pad_Draw :: "addr \<Rightarrow> pyval list \<Rightarrow> world \<Rightarrow> pyval \<times> world" where
  "Pad_Draw self args w =
     (case TPad_Draw self args w of
        (ret, w) \<Rightarrow> (let canvas' = fCanvas w self in (ret, keepalive canvas' self w)))"

text \<open>
  Modelled from the spec: \<^verbatim>\<open>with invisible_canvas(): pass\<close>, with \<^verbatim>\<open>invisible_canvas\<close> of
  \<^verbatim>\<open>rootpy.context\<close>, which is not part of the sources. Creating and discarding an
  invisible surface resets the current surface to none.
\<close>

definition invisible_canvas_pass :: "world \<Rightarrow> world" where
  "invisible_canvas_pass w = w\<lparr>gPad := None\<rparr>"

text \<open>
  \<^verbatim>\<open>_PadBase.__enter__\<close> stores \<^verbatim>\<open>ROOT.gPad.func()\<close> in \<^verbatim>\<open>self._prev_pad\<close>, calls \<^verbatim>\<open>self.cd()\<close> and
  returns \<^verbatim>\<open>self\<close>. \<^verbatim>\<open>_PadBase.__exit__\<close> calls \<^verbatim>\<open>cd()\<close> on the stored surface when there is
  one, else resets the current surface when there is one, clears the attribute and
  returns \<^verbatim>\<open>False\<close>.
\<close>

definition PadBase_enter ::
  "(addr option \<Rightarrow> addr option) \<Rightarrow> addr \<Rightarrow> world \<Rightarrow> (error + addr) \<times> world"
where
  "PadBase_enter asrootpy self w =
     (let w = w\<lparr>prev_pad := (prev_pad w)(self := gPad w)\<rparr>
      in case PadBase_cd asrootpy self [] w of
           (Inl e, w) \<Rightarrow> (Inl e, w)
         | (Inr _, w) \<Rightarrow> (Inr self, w))"

definition PadBase_exit ::
  "(addr option \<Rightarrow> addr option) \<Rightarrow> addr \<Rightarrow> world \<Rightarrow> (error + bool) \<times> world"
where
  "PadBase_exit asrootpy self w =
     (case (case prev_pad w self of
              Some p \<Rightarrow> PadBase_cd asrootpy p [] w
            | None \<Rightarrow>
                if gPad w \<noteq> None then (Inr None, invisible_canvas_pass w) else (Inr None, w))
      of (Inl e, w) \<Rightarrow> (Inl e, w)
       | (Inr _, w) \<Rightarrow> (Inr False, w\<lparr>prev_pad := (prev_pad w)(self := None)\<rparr>))"

text \<open>
  The statement \<^verbatim>\<open>with surface: body\<close> of the host language. The body is any change of
  the world that returns a value or raises. \<^verbatim>\<open>__exit__\<close> runs on both ways out of the body;
  an exception of the body is raised again unless \<^verbatim>\<open>__exit__\<close> returns a true value, and
  then the statement ends without a value.
\<close>

definition with_surface ::
  "(addr option \<Rightarrow> addr option) \<Rightarrow> addr \<Rightarrow> (world \<Rightarrow> (error + 'a) \<times> world) \<Rightarrow> world
     \<Rightarrow> (error + 'a option) \<times> world"
where
  "with_surface asrootpy self body w =
     (case PadBase_enter asrootpy self w of
        (Inl e, w) \<Rightarrow> (Inl e, w)
      | (Inr _, w) \<Rightarrow>
          (case body w of
             (r, w) \<Rightarrow>
               (case PadBase_exit asrootpy self w of
                  (Inl e, w) \<Rightarrow> (Inl e, w)
                | (Inr suppress, w) \<Rightarrow>
                    (case r of
                       Inl e \<Rightarrow> if suppress then (Inr None, w) else (Inl e, w)
                     | Inr v \<Rightarrow> (Inr (Some v), w)))))"

text \<open>
  Worlds and bodies to run the methods on: the canvas 5 is current, nothing is
  registered, the surface 3 has the subpad 4 under the number 1 and every surface is on
  the canvas 5; a body that does nothing, one that raises, and one that enters the scope
  of the surface 3 again around nothing.
\<close>

definition one_subpad :: "addr \<Rightarrow> int \<Rightarrow> addr option" where
  "one_subpad a n = (if a = 3 \<and> n = 1 then Some 4 else None)"

definition on_canvas5 :: "addr \<Rightarrow> addr option" where
  "on_canvas5 a = Some 5"

definition no_prev :: "addr \<Rightarrow> addr option" where
  "no_prev a = None"

definition world5 :: world where
  "world5 = \<lparr>gPad = Some 5, KEEPALIVE = [], prev_pad = no_prev, subpad = one_subpad,
             fCanvas = on_canvas5, painted = []\<rparr>"

definition pass :: "world \<Rightarrow> (error + unit) \<times> world" where
  "pass w = (Inr (), w)"

definition failing :: "world \<Rightarrow> (error + unit) \<times> world" where
  "failing w = (Inl (ValueError ''body''), w\<lparr>gPad := Some 4\<rparr>)"

definition again :: "world \<Rightarrow> (error + unit option) \<times> world" where
  "again w = with_surface id 3 pass w"

section \<open>rootpy/plotting/canvas.py: canvas size\<close>

text \<open>
  The global default style \<^verbatim>\<open>ROOT.gStyle\<close>, and what the toolkit and the window manager
  bring to a new canvas: batch mode, the width and height of the decorations that the
  window manager puts around the paintable area of a window, and the size of the buffer
  that the native constructor leaves in batch mode for a width and a height given. Of
  that buffer size nothing is known, so it is any function of the toolkit.
\<close>

record style =
  GetCanvasDefW :: int
  GetCanvasDefH :: int
  GetCanvasDefX :: int
  GetCanvasDefY :: int

record toolkit =
  batch :: bool
  decoration_w :: int
  decoration_h :: int
  batch_cw :: "int \<Rightarrow> int"
  batch_ch :: "int \<Rightarrow> int"

text \<open>
  Modelled from the spec: the native canvas and its operations \<^verbatim>\<open>TCanvas.__init__\<close>,
  \<^verbatim>\<open>IsBatch\<close>, \<^verbatim>\<open>GetWw\<close>, \<^verbatim>\<open>GetWh\<close>, \<^verbatim>\<open>SetCanvasSize\<close> and \<^verbatim>\<open>SetWindowSize\<close>, which are not part
  of the sources. A canvas has a position, a window size that includes the decorations,
  and a paintable size, which \<^verbatim>\<open>GetWw\<close> and \<^verbatim>\<open>GetWh\<close> report. \<^verbatim>\<open>SetCanvasSize\<close> sets the
  paintable size directly. In batch mode there is no window: \<^verbatim>\<open>SetWindowSize\<close> does nothing,
  and the constructor leaves a buffer of a size that the toolkit decides. Otherwise the
  constructor and \<^verbatim>\<open>SetWindowSize\<close> set the window size, and the paintable size is the
  window size less the decorations. The
  record also holds the attribute \<^verbatim>\<open>size_includes_decorations\<close> of the Python object,
  \<open>None\<close> while it is not set.
\<close>

record tcanvas =
  fBatch :: bool
  fWindowTopX :: int
  fWindowTopY :: int
  fWindowWidth :: int
  fWindowHeight :: int
  fDecorationW :: int
  fDecorationH :: int
  fCw :: int
  fCh :: int
  fName :: "string option"
  fTitle :: "string option"
  size_includes_decorations :: "bool option"

text \<open>
  Modelled from the spec: the native constructor \<^verbatim>\<open>TCanvas.__init__(x, y, w, h)\<close>. With a
  window the size given is that of the window and the paintable size is less by the
  decorations. In batch mode the paintable size it leaves is what the toolkit makes of
  the size given; the spec has the wrapper, not this constructor, set the buffer size.
\<close>

definition TCanvas_init ::
  "toolkit \<Rightarrow> int \<Rightarrow> int \<Rightarrow> int \<Rightarrow> int \<Rightarrow> string option \<Rightarrow> string option \<Rightarrow> tcanvas"
where
  "TCanvas_init tk x y w h name title =
     \<lparr>fBatch = batch tk, fWindowTopX = x, fWindowTopY = y,
      fWindowWidth = w, fWindowHeight = h,
      fDecorationW = decoration_w tk, fDecorationH = decoration_h tk,
      fCw = (if batch tk then batch_cw tk w else w - decoration_w tk),
      fCh = (if batch tk then batch_ch tk h else h - decoration_h tk),
      fName = name, fTitle = title, size_includes_decorations = None\<rparr>"

text \<open>
  Modelled from the spec: the native readers \<^verbatim>\<open>IsBatch\<close>, \<^verbatim>\<open>GetWw\<close> and \<^verbatim>\<open>GetWh\<close> of a
  canvas; the last two report the paintable size.
\<close>

definition IsBatch :: "tcanvas \<Rightarrow> bool" where
  "IsBatch c = fBatch c"

definition TCanvas_GetWw :: "tcanvas \<Rightarrow> int" where
  "TCanvas_GetWw c = fCw c"

definition TCanvas_GetWh :: "tcanvas \<Rightarrow> int" where
  "TCanvas_GetWh c = fCh c"

text \<open>
  Modelled from the spec: the native \<^verbatim>\<open>SetCanvasSize\<close>, which sets the paintable size
  directly.
\<close>

definition SetCanvasSize :: "int \<Rightarrow> int \<Rightarrow> tcanvas \<Rightarrow> tcanvas" where
  "SetCanvasSize w h c = c\<lparr>fCw := w, fCh := h\<rparr>"

text \<open>
  Modelled from the spec: the native \<^verbatim>\<open>SetWindowSize\<close>, which sets the size of the window,
  decorations included; the paintable size follows. Without a window it does nothing.
\<close>

definition SetWindowSize :: "int \<Rightarrow> int \<Rightarrow> tcanvas \<Rightarrow> tcanvas" where
  "SetWindowSize w h c =
     (if fBatch c then c
      else c\<lparr>fWindowWidth := w, fWindowHeight := h,
             fCw := w - fDecorationW c, fCh := h - fDecorationH c\<rparr>)"

text \<open>\<^verbatim>\<open>Canvas.__init__\<close>; an argument that is not given is \<open>None\<close>.\<close>

definition Canvas_init ::
  "toolkit \<Rightarrow> style \<Rightarrow> int option \<Rightarrow> int option \<Rightarrow> int option \<Rightarrow> int option \<Rightarrow>
   string option \<Rightarrow> string option \<Rightarrow> bool \<Rightarrow> tcanvas"
where
  "Canvas_init tk style width' height' x y name title size_includes_decorations' =
     (let width' = (case width' of None \<Rightarrow> GetCanvasDefW style | Some v \<Rightarrow> v);
          height' = (case height' of None \<Rightarrow> GetCanvasDefH style | Some v \<Rightarrow> v);
          x = (case x of None \<Rightarrow> GetCanvasDefX style | Some v \<Rightarrow> v);
          y = (case y of None \<Rightarrow> GetCanvasDefY style | Some v \<Rightarrow> v);
          self = TCanvas_init tk x y width' height' name title;
          self =
            (if \<not> size_includes_decorations' then
               (if IsBatch self then SetCanvasSize width' height' self
                else SetWindowSize (width' + (width' - TCanvas_GetWw self))
                                   (height' + (height' - TCanvas_GetWh self)) self)
             else self)
      in self\<lparr>size_includes_decorations := Some size_includes_decorations'\<rparr>)"

text \<open>
  The properties \<^verbatim>\<open>width\<close>, \<^verbatim>\<open>width_pixels\<close>, \<^verbatim>\<open>height\<close> and \<^verbatim>\<open>height_pixels\<close> of \<^verbatim>\<open>Canvas\<close> and
  their setters; \<^verbatim>\<open>getattr(self, 'size_includes_decorations', False)\<close> reads the attribute.
\<close>

definition getattr_size_includes_decorations :: "tcanvas \<Rightarrow> bool" where
  "getattr_size_includes_decorations self =
     (case size_includes_decorations self of None \<Rightarrow> False | Some b \<Rightarrow> b)"

definition Canvas_width :: "tcanvas \<Rightarrow> int" where
  "Canvas_width self = TCanvas_GetWw self"

definition Canvas_set_width :: "int \<Rightarrow> tcanvas \<Rightarrow> tcanvas" where
  "Canvas_set_width v self =
     (if IsBatch self then SetCanvasSize v (TCanvas_GetWh self) self
      else
        (let curr_height = TCanvas_GetWh self;
             self = SetWindowSize v curr_height self
         in if \<not> getattr_size_includes_decorations self then
              SetWindowSize (v + (v - TCanvas_GetWw self))
                            (curr_height + (curr_height - TCanvas_GetWh self)) self
            else self))"

definition Canvas_width_pixels :: "tcanvas \<Rightarrow> int" where
  "Canvas_width_pixels self = TCanvas_GetWw self"

definition Canvas_set_width_pixels :: "int \<Rightarrow> tcanvas \<Rightarrow> tcanvas" where
  "Canvas_set_width_pixels v self = Canvas_set_width v self"

definition Canvas_height :: "tcanvas \<Rightarrow> int" where
  "Canvas_height self = TCanvas_GetWh self"

definition Canvas_set_height :: "int \<Rightarrow> tcanvas \<Rightarrow> tcanvas" where
  "Canvas_set_height v self =
     (if IsBatch self then SetCanvasSize (TCanvas_GetWw self) v self
      else
        (let curr_width = TCanvas_GetWw self;
             self = SetWindowSize curr_width v self
         in if \<not> getattr_size_includes_decorations self then
              SetWindowSize (curr_width + (curr_width - TCanvas_GetWw self))
                            (v + (v - TCanvas_GetWh self)) self
            else self))"

definition Canvas_height_pixels :: "tcanvas \<Rightarrow> int" where
  "Canvas_height_pixels self = TCanvas_GetWh self"

definition Canvas_set_height_pixels :: "int \<Rightarrow> tcanvas \<Rightarrow> tcanvas" where
  "Canvas_set_height_pixels v self = Canvas_set_height v self"

text \<open>
  A style and two toolkits to run the constructor on: batch mode, where the native
  constructor leaves a buffer smaller by 4 by 28 pixels than the size given, and a
  window manager whose decorations take 4 by 28 pixels.
\<close>

definition default_style :: style where
  "default_style =
     \<lparr>GetCanvasDefW = 700, GetCanvasDefH = 500, GetCanvasDefX = 10, GetCanvasDefY = 10\<rparr>"

definition batch_toolkit :: toolkit where
  "batch_toolkit =
     \<lparr>batch = True, decoration_w = 0, decoration_h = 0,
      batch_cw = (\<lambda>w. w - 4), batch_ch = (\<lambda>h. h - 28)\<rparr>"

definition windowed_toolkit :: toolkit where
  "windowed_toolkit =
     \<lparr>batch = False, decoration_w = 4, decoration_h = 28, batch_cw = id, batch_ch = id\<rparr>"

section \<open>Properties of rootpy/io.py\<close>

lemma sublist_no_such_file: "sublist p (no_such_file p)"
proof -
  have "no_such_file p = (''No such file: '' @ [CHR 0x27]) @ p @ [CHR 0x27]"
    by (simp add: no_such_file_def)
  then show ?thesis
    unfolding sublist_def by blast
qed

text \<open>
  Claim C3. \<open>open\<close> raises the not-found failure (an \<open>IOError\<close>) exactly when the native
  open returns the null handle; the message of the failure contains the requested path;
  the native open is asked at exactly the given path and mode, so that two native opens
  agreeing there give the same outcome; and on success the native handle is returned.
\<close>

theorem open_file_spec:
  "((\<exists>msg. open_file TFile_Open p m = Inl (IOError msg)) \<longleftrightarrow> TFile_Open p m = None) \<and>
   (TFile_Open p m = None \<longrightarrow>
      (\<exists>msg. open_file TFile_Open p m = Inl (IOError msg) \<and> sublist p msg)) \<and>
   (\<forall>h. TFile_Open p m = Some h \<longrightarrow> open_file TFile_Open p m = Inr h) \<and>
   (\<forall>other. other p m = TFile_Open p m \<longrightarrow> open_file other p m = open_file TFile_Open p m)"
  by (auto simp: open_file_def sublist_no_such_file split: option.splits)

theorem open_file_spec_witness:
  "one_file ''missing.root'' ''read'' = None \<and>
   open_file one_file ''missing.root'' ''read'' = Inl (IOError (no_such_file ''missing.root'')) \<and>
   sublist ''missing.root'' (no_such_file ''missing.root'') \<and>
   one_file ''data.root'' ''read'' = Some 7 \<and>
   open_file one_file ''data.root'' ''read'' = Inr 7"
  using open_file_spec [of one_file "''missing.root''" "''read''"]
        open_file_spec [of one_file "''data.root''" "''read''"]
  by (simp add: one_file_def open_file_def sublist_no_such_file)

text \<open>
  Claim C4, as the code has it. For every name, \<open>Get\<close> hands the name to the native fetch
  as it is and returns the conversion helper applied to what the fetch returned; it never
  raises an error of its own, and for an absent name it returns the conversion helper
  applied to the null handle.
\<close>

theorem File_Get_spec:
  "File_Get asrootpy self name = Inr (asrootpy (self name)) \<and>
   (self name = None \<longrightarrow> File_Get asrootpy self name = Inr (asrootpy None)) \<and>
   (\<forall>e. File_Get asrootpy self name \<noteq> Inl e)"
  by (simp add: File_Get_def TFile_Get_def)

theorem File_Get_spec_witness:
  "no_entities ''hist'' = None \<and>
   File_Get Some no_entities ''hist'' = Inr (Some None)"
  using File_Get_spec [of Some no_entities "''hist''"]
  by (simp add: no_entities_def)

text \<open>
  Claim C4 as the spec words it fails: fetching a name that the container does not hold
  is not a failure. On the empty container \<open>Get\<close> returns the converted null handle.
\<close>

theorem File_Get_absent_counterexample:
  "TFile_Get no_entities ''hist'' = None \<and>
   File_Get id no_entities ''hist'' = Inr None"
  by (simp add: File_Get_def TFile_Get_def no_entities_def)

text \<open>
  Claim C10. The keyword arguments of the \<open>File\<close> constructor are dropped: the native
  constructor gets the positional arguments and no keyword argument, whatever keywords
  the caller gave, so two calls that differ only in their keywords build the same file.
\<close>

theorem File_init_drops_kwargs:
  "File_init TFile_init args kwargs = TFile_init args [] \<and>
   File_init TFile_init args kwargs = File_init TFile_init args kwargs'"
  by (simp add: File_init_def)

section \<open>Properties of rootpy/plotting/canvas.py: axes\<close>

text \<open>
  Claim C2. \<open>axes\<close> with \<open>ndim = 1\<close> returns exactly two axis objects, with \<open>ndim = 2\<close> or
  \<open>ndim = 3\<close> exactly three; for every other \<open>ndim\<close> it raises the invalid-argument error
  \<open>ValueError\<close> and leaves the display as it was: no histogram is drawn, no limits are
  set and no axis object is returned.
\<close>

theorem axes_spec:
  "(ndim = 1 \<longrightarrow>
      (\<exists>axs. fst (PadBase_axes ndim xl yl zl xb yb zb d) = Inr axs \<and> length axs = 2)) \<and>
   (ndim = 2 \<or> ndim = 3 \<longrightarrow>
      (\<exists>axs. fst (PadBase_axes ndim xl yl zl xb yb zb d) = Inr axs \<and> length axs = 3)) \<and>
   (ndim \<notin> {1, 2, 3} \<longrightarrow>
      PadBase_axes ndim xl yl zl xb yb zb d = (Inl (ValueError ''ndim must be 1, 2, or 3''), d))"
  by (auto simp: PadBase_axes_def axes_hist_def Let_def split: option.splits)

theorem axes_spec_witness:
  "fst (PadBase_axes 1 None None None 10 1 1 blank)
     = Inr [Axis (Hist [10, 0, 1]) Xaxis, Axis (Hist [10, 0, 1]) Yaxis] \<and>
   fst (PadBase_axes 2 (Some (2, 5)) None None 10 20 1 blank)
     = Inr [Axis (Hist2D [10, 2, 5, 20, 0, 1]) Xaxis, Axis (Hist2D [10, 2, 5, 20, 0, 1]) Yaxis,
            Axis (Hist2D [10, 2, 5, 20, 0, 1]) Zaxis] \<and>
   (4::int) \<notin> {1, 2, 3} \<and>
   PadBase_axes 4 None None None 10 1 1 blank = (Inl (ValueError ''ndim must be 1, 2, or 3''), blank)"
  using axes_spec [of 1 None None None 10 1 1 blank]
        axes_spec [of 2 "Some (2, 5)" None None 10 20 1 blank]
        axes_spec [of 4 None None None 10 1 1 blank]
  by (simp add: PadBase_axes_def axes_hist_def Let_def hist_Draw_def set_limits_def
      xaxis_def yaxis_def zaxis_def blank_def)

section \<open>Properties of rootpy/plotting/canvas.py: pixel geometry of pads\<close>

lemma width_pixels_loop_chain:
  "mother_chain asrootpy h a ms c \<Longrightarrow>
   width_pixels_loop asrootpy ar h (Some c) (PadBase_mother asrootpy h a) w =
     Some (Inr (foldl (mul ar) w (map (\<lambda>m. GetWNDC (h m)) ms), Some c))"
proof (induction ms arbitrary: a w)
  case Nil
  then show ?case
    by (subst width_pixels_loop.simps) simp
next
  case (Cons m ms)
  then have m: "PadBase_mother asrootpy h a = Some m" and ne: "m \<noteq> c"
    and rest: "mother_chain asrootpy h m ms c"
    by simp_all
  show ?case
    by (subst width_pixels_loop.simps) (simp add: m ne Cons.IH [OF rest])
qed

lemma height_pixels_loop_chain:
  "mother_chain asrootpy h a ms c \<Longrightarrow>
   height_pixels_loop asrootpy ar h (Some c) (PadBase_mother asrootpy h a) w =
     Some (Inr (foldl (mul ar) w (map (\<lambda>m. GetHNDC (h m)) ms), Some c))"
proof (induction ms arbitrary: a w)
  case Nil
  then show ?case
    by (subst height_pixels_loop.simps) simp
next
  case (Cons m ms)
  then have m: "PadBase_mother asrootpy h a = Some m" and ne: "m \<noteq> c"
    and rest: "mother_chain asrootpy h m ms c"
    by simp_all
  show ?case
    by (subst height_pixels_loop.simps) (simp add: m ne Cons.IH [OF rest])
qed

text \<open>
  Claim C1. Let the mother chain of a pad \<open>p\<close> lead over the surfaces \<open>ms\<close> to its canvas
  \<open>c\<close>, a \<open>Canvas\<close> of pixel size \<open>W\<close> by \<open>H\<close>. Then \<open>width_pixels\<close> returns
  \<^verbatim>\<open>int(w1 * ... * wn * W)\<close>, the product taken from the left over the normalized width of
  \<open>p\<close> and of each surface of \<open>ms\<close>, and \<open>height_pixels\<close> the same with the normalized
  heights and \<open>H\<close>. For a pad two levels under the canvas \<open>ms\<close> is one surface and the
  result is \<^verbatim>\<open>int(w1 * w2 * W)\<close>. This holds for any float arithmetic.
\<close>

theorem Pad_pixels_spec:
  assumes "mother_chain asrootpy h p ms c"
    and "PadBase_canvas asrootpy h p = Some c"
    and "cls (h c) = Canvas"
  shows "Pad_width_pixels asrootpy ar h p =
           Some (to_int ar (mul ar (foldl (mul ar) (GetWNDC (h p)) (map (\<lambda>m. GetWNDC (h m)) ms))
                                   (from_int ar (GetWw (h c))))) \<and>
         Pad_height_pixels asrootpy ar h p =
           Some (to_int ar (mul ar (foldl (mul ar) (GetHNDC (h p)) (map (\<lambda>m. GetHNDC (h m)) ms))
                                   (from_int ar (GetWh (h c)))))"
  using assms
  by (simp add: Pad_width_pixels_def Pad_height_pixels_def width_pixels_loop_chain
      height_pixels_loop_chain width_def height_def)

theorem Pad_pixels_spec_witness:
  "mother_chain id nested 12 [11] 10 \<and> PadBase_canvas id nested 12 = Some 10 \<and>
   cls (nested 10) = Canvas \<and>
   Pad_width_pixels id real_arithmetic nested 12 = Some (Inr 133) \<and>
   Pad_height_pixels id real_arithmetic nested 12 = Some (Inr 100)"
proof -
  have chain: "mother_chain id nested 12 [11] 10"
    by (simp add: PadBase_mother_def nested_def)
  have cv: "PadBase_canvas id nested 12 = Some 10"
    by (simp add: PadBase_canvas_def nested_def)
  have c: "cls (nested 10) = Canvas"
    by (simp add: nested_def)
  have fields:
    "GetWNDC (nested 12) = 1/3" "GetWNDC (nested 11) = 1/2" "GetWw (nested 10) = 800"
    "GetHNDC (nested 12) = 1/2" "GetHNDC (nested 11) = 1/3" "GetWh (nested 10) = 600"
    by (simp_all add: nested_def)
  have "to_int real_arithmetic (mul real_arithmetic (mul real_arithmetic (1/3) (1/2))
          (from_int real_arithmetic 800)) = Inr 133"
    by (simp add: real_arithmetic_def)
  moreover have "to_int real_arithmetic (mul real_arithmetic (mul real_arithmetic (1/2) (1/3))
          (from_int real_arithmetic 600)) = Inr 100"
    by (simp add: real_arithmetic_def)
  ultimately show ?thesis
    using Pad_pixels_spec [OF chain cv c, of real_arithmetic] chain cv c
    by (simp add: fields)
qed







section \<open>Properties of rootpy/plotting/canvas.py: current surface and keepalive registry\<close>

lemma TPad_cd_no_args: "TPad_cd self [] w = (Inr (Some self), w\<lparr>gPad := Some self\<rparr>)"
  by (simp add: TPad_cd_def)

lemma PadBase_cd_gPad: "gPad (snd (PadBase_cd asrootpy self [] w)) = Some self"
  by (simp add: PadBase_cd_def TPad_cd_no_args keepalive_def Let_def split: option.splits)

lemma PadBase_cd_prev_pad: "prev_pad (snd (PadBase_cd asrootpy self args w)) = prev_pad w"
  by (auto simp: PadBase_cd_def TPad_cd_def keepalive_def Let_def split: option.splits list.splits)

lemma PadBase_cd_no_args_ok: "\<exists>r. fst (PadBase_cd asrootpy self [] w) = Inr r"
  by (simp add: PadBase_cd_def TPad_cd_no_args keepalive_def Let_def split: option.splits)

text \<open>
  Claim C5. \<open>cd\<close> returns the converted result of the native \<open>cd\<close>; it registers the edge
  (self, returned pad) when a surface is returned that is not \<open>self\<close>, and leaves the
  registry as it was when the result is the null handle or \<open>self\<close>; a native error
  passes through with the registry untouched. \<open>Pad.Draw\<close> returns what the native draw
  returns, draws what it draws, and then registers the edge (canvas of the pad, pad) in
  every case. The scope methods change the registry only through the \<open>cd\<close> they call.
\<close>

theorem keepalive_registry_spec:
  "(\<forall>r w'. TPad_cd self args w = (Inr r, w') \<longrightarrow>
      fst (PadBase_cd asrootpy self args w) = Inr (asrootpy r) \<and>
      (\<forall>p. asrootpy r = Some p \<and> p \<noteq> self \<longrightarrow>
         KEEPALIVE (snd (PadBase_cd asrootpy self args w)) = KEEPALIVE w @ [(Some self, p)]) \<and>
      (asrootpy r = None \<or> asrootpy r = Some self \<longrightarrow>
         KEEPALIVE (snd (PadBase_cd asrootpy self args w)) = KEEPALIVE w)) \<and>
   (\<forall>e w'. TPad_cd self args w = (Inl e, w') \<longrightarrow>
      PadBase_cd asrootpy self args w = (Inl e, w') \<and> KEEPALIVE w' = KEEPALIVE w) \<and>
   fst (Pad_Draw self dargs w) = fst (TPad_Draw self dargs w) \<and>
   painted (snd (Pad_Draw self dargs w)) = painted (snd (TPad_Draw self dargs w)) \<and>
   KEEPALIVE (snd (Pad_Draw self dargs w)) = KEEPALIVE w @ [(fCanvas w self, self)] \<and>
   KEEPALIVE (snd (PadBase_enter asrootpy self w)) =
     KEEPALIVE (snd (PadBase_cd asrootpy self [] w)) \<and>
   KEEPALIVE (snd (PadBase_exit asrootpy self w)) =
     (case prev_pad w self of
        Some p \<Rightarrow> KEEPALIVE (snd (PadBase_cd asrootpy p [] w))
      | None \<Rightarrow> KEEPALIVE w)"
  apply (intro conjI allI impI)
          apply (auto simp: PadBase_cd_def TPad_cd_def keepalive_def Let_def Pad_Draw_def TPad_Draw_def
      PadBase_enter_def PadBase_exit_def invisible_canvas_pass_def
      split: option.splits list.splits if_splits prod.splits sum.splits)
  done

theorem keepalive_registry_spec_witness:
  "fst (TPad_cd 3 [1] world5) = Inr (Some 4) \<and>
   fst (PadBase_cd id 3 [1] world5) = Inr (Some 4) \<and>
   KEEPALIVE (snd (PadBase_cd id 3 [1] world5)) = [(Some 3, 4)] \<and>
   fst (PadBase_cd id 3 [] world5) = Inr (Some 3) \<and>
   KEEPALIVE (snd (PadBase_cd id 3 [] world5)) = [] \<and>
   fst (PadBase_cd id 3 [2] world5) = Inr None \<and>
   KEEPALIVE (snd (PadBase_cd id 3 [2] world5)) = [] \<and>
   PadBase_cd id 3 [1, 2] world5 = (Inl TypeError, world5) \<and>
   KEEPALIVE (snd (Pad_Draw 4 [] world5)) = [(Some 5, 4)]"
proof -
  have n1: "TPad_cd 3 [1] world5 = (Inr (Some 4), world5\<lparr>gPad := Some 4\<rparr>)"
    by (simp add: TPad_cd_def world5_def one_subpad_def)
  have n0: "TPad_cd 3 [] world5 = (Inr (Some 3), world5\<lparr>gPad := Some 3\<rparr>)"
    by (simp add: TPad_cd_def)
  have n2: "TPad_cd 3 [2] world5 = (Inr None, world5)"
    by (simp add: TPad_cd_def world5_def one_subpad_def)
  have n12: "TPad_cd 3 [1, 2] world5 = (Inl TypeError, world5)"
    by (simp add: TPad_cd_def)
  have k: "KEEPALIVE world5 = []" "fCanvas world5 4 = Some 5"
    by (simp_all add: world5_def on_canvas5_def)
  from keepalive_registry_spec [of 3 "[1]" world5 id "[]", THEN conjunct1, rule_format, OF n1]
  have r1: "fst (PadBase_cd id 3 [1] world5) = Inr (Some 4)"
    "KEEPALIVE (snd (PadBase_cd id 3 [1] world5)) = [(Some 3, 4)]"
    by (simp_all add: k)
  from keepalive_registry_spec [of 3 "[]" world5 id "[]", THEN conjunct1, rule_format, OF n0]
  have r0: "fst (PadBase_cd id 3 [] world5) = Inr (Some 3)"
    "KEEPALIVE (snd (PadBase_cd id 3 [] world5)) = []"
    by (simp_all add: k)
  from keepalive_registry_spec [of 3 "[2]" world5 id "[]", THEN conjunct1, rule_format, OF n2]
  have r2: "fst (PadBase_cd id 3 [2] world5) = Inr None"
    "KEEPALIVE (snd (PadBase_cd id 3 [2] world5)) = []"
    by (simp_all add: k)
  from keepalive_registry_spec [of 3 "[1, 2]" world5 id "[]", THEN conjunct2, THEN conjunct1,
      rule_format, OF n12]
  have r12: "PadBase_cd id 3 [1, 2] world5 = (Inl TypeError, world5)"
    by simp
  from keepalive_registry_spec [of 4 "[]" world5 id "[]"]
  have d: "KEEPALIVE (snd (Pad_Draw 4 [] world5)) = [(Some 5, 4)]"
    by (simp add: k)
  from n1 r1 r0 r2 r12 d show ?thesis
    by simp
qed

text \<open>
  The scope of a surface restores the current surface on both ways out of the body, and
  lets an exception of the body through, as long as the body leaves the attribute
  \<^verbatim>\<open>_prev_pad\<close> of the surface as \<^verbatim>\<open>__enter__\<close> set it.
\<close>

lemma with_surface_restores:
  assumes "prev_pad (snd (body (snd (PadBase_enter asrootpy self w)))) self
           = prev_pad (snd (PadBase_enter asrootpy self w)) self"
  shows "gPad (snd (with_surface asrootpy self body w)) = gPad w \<and>
         (\<forall>e. fst (body (snd (PadBase_enter asrootpy self w))) = Inl e \<longrightarrow>
              fst (with_surface asrootpy self body w) = Inl e)"
proof -
  obtain r0 where r0: "fst (PadBase_cd asrootpy self [] (w\<lparr>prev_pad := (prev_pad w)(self := gPad w)\<rparr>)) = Inr r0"
    using PadBase_cd_no_args_ok by blast
  define w1 where "w1 = snd (PadBase_cd asrootpy self [] (w\<lparr>prev_pad := (prev_pad w)(self := gPad w)\<rparr>))"
  have enter: "PadBase_enter asrootpy self w = (Inr self, w1)"
    using r0
    by (cases "PadBase_cd asrootpy self [] (w\<lparr>prev_pad := (prev_pad w)(self := gPad w)\<rparr>)")
       (auto simp: PadBase_enter_def w1_def Let_def)
  have p1: "prev_pad w1 self = gPad w"
    by (simp add: w1_def PadBase_cd_prev_pad)
  obtain r w2 where body: "body w1 = (r, w2)"
    by (cases "body w1")
  from assms enter body have p2: "prev_pad w2 self = gPad w"
    by (simp add: p1)
  have ex: "\<exists>w3. PadBase_exit asrootpy self w2 = (Inr False, w3) \<and> gPad w3 = gPad w"
  proof (cases "gPad w")
    case None
    with p2 show ?thesis
      by (auto simp: PadBase_exit_def invisible_canvas_pass_def)
  next
    case (Some p)
    obtain r1 where "fst (PadBase_cd asrootpy p [] w2) = Inr r1"
      using PadBase_cd_no_args_ok by blast
    moreover have "gPad (snd (PadBase_cd asrootpy p [] w2)) = Some p"
      by (rule PadBase_cd_gPad)
    ultimately show ?thesis
      using p2 Some by (cases "PadBase_cd asrootpy p [] w2") (auto simp: PadBase_exit_def)
  qed
  then obtain w3 where w3: "PadBase_exit asrootpy self w2 = (Inr False, w3)" "gPad w3 = gPad w"
    by blast
  show ?thesis
    using enter body w3 by (cases r) (simp_all add: with_surface_def)
qed

text \<open>
  An abnormal exit: the body makes the surface 4 current and raises. The canvas 5, which
  was current on entry, is current again, and the exception of the body comes out.
\<close>

lemma with_surface_failing:
  "fst (with_surface id 3 failing world5) = Inl (ValueError ''body'') \<and>
   gPad (snd (with_surface id 3 failing world5)) = Some 5"
proof -
  have "prev_pad (snd (failing (snd (PadBase_enter id 3 world5)))) 3
        = prev_pad (snd (PadBase_enter id 3 world5)) 3"
    by (simp add: failing_def)
  from with_surface_restores [of failing id 3 world5, OF this]
  show ?thesis
    by (simp add: failing_def world5_def)
qed

text \<open>
  Claim C6 fails where the body enters the scope of the same surface again. The inner
  \<^verbatim>\<open>__enter__\<close> overwrites the attribute \<^verbatim>\<open>_prev_pad\<close> and the inner \<^verbatim>\<open>__exit__\<close> clears it, so
  the outer \<^verbatim>\<open>__exit__\<close> finds no previous surface: with the canvas 5 current on entry,
  the two scopes of the surface 3 end normally and no surface is current afterwards.
\<close>

theorem with_surface_nested:
  "gPad world5 = Some 5 \<and>
   fst (with_surface id 3 again world5) = Inr (Some (Some ())) \<and>
   gPad (snd (with_surface id 3 again world5)) = None"
  by (simp add: world5_def again_def pass_def with_surface_def PadBase_enter_def PadBase_exit_def
      PadBase_cd_def TPad_cd_def keepalive_def invisible_canvas_pass_def Let_def no_prev_def)

section \<open>Properties of rootpy/plotting/canvas.py: canvas size\<close>

text \<open>
  Claim C7. Whatever the flag \<open>size_includes_decorations\<close>, the constructor takes an
  unset width, height, x or y from the default style: with \<open>W\<close>, \<open>H\<close>, \<open>X\<close> and \<open>Y\<close> the
  values so resolved, it builds the canvas that it builds when all four are given, and
  the native constructor is called with them. With the flag true nothing more is done.
  With the flag false the paintable width and height of the new canvas are \<open>W\<close> and \<open>H\<close>:
  in batch mode because the canvas size is then set directly, whatever buffer the native
  constructor left, and with a window because the window size is set to \<open>W\<close> and \<open>H\<close> plus
  the difference between them and the paintable size that the canvas reported, which
  makes it the requested size plus the decorations.
\<close>

theorem Canvas_init_spec:
  assumes "W = (case width' of None \<Rightarrow> GetCanvasDefW st | Some v \<Rightarrow> v)"
    and "H = (case height' of None \<Rightarrow> GetCanvasDefH st | Some v \<Rightarrow> v)"
    and "X = (case x of None \<Rightarrow> GetCanvasDefX st | Some v \<Rightarrow> v)"
    and "Y = (case y of None \<Rightarrow> GetCanvasDefY st | Some v \<Rightarrow> v)"
  shows
  "Canvas_init tk st width' height' x y name title sid
     = Canvas_init tk st (Some W) (Some H) (Some X) (Some Y) name title sid \<and>
   fWindowTopX (Canvas_init tk st width' height' x y name title sid) = X \<and>
   fWindowTopY (Canvas_init tk st width' height' x y name title sid) = Y \<and>
   Canvas_init tk st width' height' x y name title True
     = (TCanvas_init tk X Y W H name title)\<lparr>size_includes_decorations := Some True\<rparr> \<and>
   Canvas_width_pixels (Canvas_init tk st width' height' x y name title False) = W \<and>
   Canvas_height_pixels (Canvas_init tk st width' height' x y name title False) = H \<and>
   (batch tk \<longrightarrow>
      Canvas_init tk st width' height' x y name title False
        = (SetCanvasSize W H (TCanvas_init tk X Y W H name title))
            \<lparr>size_includes_decorations := Some False\<rparr>) \<and>
   (\<not> batch tk \<longrightarrow>
      Canvas_init tk st width' height' x y name title False
        = (SetWindowSize (W + (W - TCanvas_GetWw (TCanvas_init tk X Y W H name title)))
                         (H + (H - TCanvas_GetWh (TCanvas_init tk X Y W H name title)))
             (TCanvas_init tk X Y W H name title))
            \<lparr>size_includes_decorations := Some False\<rparr> \<and>
      fWindowWidth (Canvas_init tk st width' height' x y name title False) = W + decoration_w tk \<and>
      fWindowHeight (Canvas_init tk st width' height' x y name title False) = H + decoration_h tk)"
  using assms
  by (simp add: Canvas_init_def Canvas_width_pixels_def Canvas_height_pixels_def TCanvas_init_def
      IsBatch_def TCanvas_GetWw_def TCanvas_GetWh_def SetCanvasSize_def SetWindowSize_def Let_def)

theorem Canvas_init_spec_witness:
  "batch batch_toolkit \<and> \<not> batch windowed_toolkit \<and>
   Canvas_width_pixels (TCanvas_init batch_toolkit 10 10 500 500 None None) = 496 \<and>
   Canvas_width_pixels
     (Canvas_init batch_toolkit default_style (Some 500) None None None None None False) = 500 \<and>
   Canvas_height_pixels
     (Canvas_init batch_toolkit default_style (Some 500) None None None None None False) = 500 \<and>
   Canvas_width_pixels
     (Canvas_init windowed_toolkit default_style (Some 500) None None None None None False) = 500 \<and>
   fWindowWidth
     (Canvas_init windowed_toolkit default_style (Some 500) None None None None None False) = 504 \<and>
   fWindowWidth
     (Canvas_init windowed_toolkit default_style None None None None None None True) = 700 \<and>
   Canvas_width_pixels
     (Canvas_init windowed_toolkit default_style None None None None None None True) = 696"
proof -
  have r: "(500::int) = (case Some 500 of None \<Rightarrow> GetCanvasDefW default_style | Some v \<Rightarrow> v)"
    "(500::int) = (case None of None \<Rightarrow> GetCanvasDefH default_style | Some v \<Rightarrow> v)"
    "(10::int) = (case None of None \<Rightarrow> GetCanvasDefX default_style | Some v \<Rightarrow> v)"
    "(10::int) = (case None of None \<Rightarrow> GetCanvasDefY default_style | Some v \<Rightarrow> v)"
    "(700::int) = (case None of None \<Rightarrow> GetCanvasDefW default_style | Some v \<Rightarrow> v)"
    by (simp_all add: default_style_def)
  have b: "batch batch_toolkit" "\<not> batch windowed_toolkit"
    "decoration_w windowed_toolkit = 4"
    by (simp_all add: batch_toolkit_def windowed_toolkit_def)
  have c0: "Canvas_width_pixels (TCanvas_init batch_toolkit 10 10 500 500 None None) = 496"
    by (simp add: Canvas_width_pixels_def TCanvas_GetWw_def TCanvas_init_def batch_toolkit_def)
  note batch_case = Canvas_init_spec [OF r(1) r(2) r(3) r(4), of batch_toolkit None None False]
  note window_case = Canvas_init_spec [OF r(1) r(2) r(3) r(4), of windowed_toolkit None None False]
  note flag_case = Canvas_init_spec [OF r(5) r(2) r(3) r(4), of windowed_toolkit None None True]
  have c1: "Canvas_width_pixels
      (Canvas_init batch_toolkit default_style (Some 500) None None None None None False) = 500"
    "Canvas_height_pixels
      (Canvas_init batch_toolkit default_style (Some 500) None None None None None False) = 500"
    by (rule batch_case [THEN conjunct2, THEN conjunct2, THEN conjunct2, THEN conjunct2,
            THEN conjunct1],
        rule batch_case [THEN conjunct2, THEN conjunct2, THEN conjunct2, THEN conjunct2,
            THEN conjunct2, THEN conjunct1])
  have c2: "Canvas_width_pixels
      (Canvas_init windowed_toolkit default_style (Some 500) None None None None None False) = 500"
    by (rule window_case [THEN conjunct2, THEN conjunct2, THEN conjunct2, THEN conjunct2,
            THEN conjunct1])
  from window_case [THEN conjunct2, THEN conjunct2, THEN conjunct2, THEN conjunct2,
      THEN conjunct2, THEN conjunct2, THEN conjunct2, THEN mp, OF b(2),
      THEN conjunct2, THEN conjunct1]
  have c2': "fWindowWidth
      (Canvas_init windowed_toolkit default_style (Some 500) None None None None None False) = 504"
    by (simp add: b(3))
  have c3: "Canvas_init windowed_toolkit default_style None None None None None None True
      = (TCanvas_init windowed_toolkit 10 10 700 500 None None)
          \<lparr>size_includes_decorations := Some True\<rparr>"
    by (rule flag_case [THEN conjunct2, THEN conjunct2, THEN conjunct2, THEN conjunct1])
  have c4: "fWindowWidth
      (Canvas_init windowed_toolkit default_style None None None None None None True) = 700"
    "Canvas_width_pixels
      (Canvas_init windowed_toolkit default_style None None None None None None True) = 696"
    unfolding c3
    by (simp_all add: TCanvas_init_def Canvas_width_pixels_def TCanvas_GetWw_def
        windowed_toolkit_def)
  from b(1) b(2) c0 c1 c2 c2' c4 show ?thesis
    by simp
qed

text \<open>
  Claim C8, as the code has it. In batch mode, or when \<open>size_includes_decorations\<close> is
  false or not set, assigning \<open>width = v\<close> makes \<open>width_pixels\<close> equal \<open>v\<close> and leaves
  \<open>height_pixels\<close> as it was. In batch mode the setter sets the canvas size directly;
  with a window it sets the window size, and then sets it again, by the difference
  between what was asked and what the canvas reports, only when
  \<open>size_includes_decorations\<close> is false.
\<close>

theorem Canvas_set_width_spec:
  "(IsBatch c \<or> \<not> getattr_size_includes_decorations c \<longrightarrow>
      Canvas_width_pixels (Canvas_set_width v c) = v \<and>
      Canvas_height_pixels (Canvas_set_width v c) = Canvas_height_pixels c) \<and>
   (IsBatch c \<longrightarrow> Canvas_set_width v c = SetCanvasSize v (TCanvas_GetWh c) c) \<and>
   (\<not> IsBatch c \<and> getattr_size_includes_decorations c \<longrightarrow>
      Canvas_set_width v c = SetWindowSize v (TCanvas_GetWh c) c) \<and>
   (\<not> IsBatch c \<and> \<not> getattr_size_includes_decorations c \<longrightarrow>
      Canvas_set_width v c =
        SetWindowSize (v + (v - TCanvas_GetWw (SetWindowSize v (TCanvas_GetWh c) c)))
          (TCanvas_GetWh c + (TCanvas_GetWh c - TCanvas_GetWh (SetWindowSize v (TCanvas_GetWh c) c)))
          (SetWindowSize v (TCanvas_GetWh c) c))"
  by (auto simp: Canvas_set_width_def Canvas_width_pixels_def Canvas_height_pixels_def
      IsBatch_def TCanvas_GetWw_def TCanvas_GetWh_def SetCanvasSize_def SetWindowSize_def Let_def
      getattr_size_includes_decorations_def)

theorem Canvas_set_width_spec_witness:
  "\<not> IsBatch (Canvas_init windowed_toolkit default_style (Some 500) (Some 400) None None None None False) \<and>
   \<not> getattr_size_includes_decorations
       (Canvas_init windowed_toolkit default_style (Some 500) (Some 400) None None None None False) \<and>
   Canvas_width_pixels (Canvas_set_width 800
       (Canvas_init windowed_toolkit default_style (Some 500) (Some 400) None None None None False)) = 800 \<and>
   Canvas_height_pixels (Canvas_set_width 800
       (Canvas_init windowed_toolkit default_style (Some 500) (Some 400) None None None None False)) = 400 \<and>
   IsBatch (Canvas_init batch_toolkit default_style (Some 500) (Some 400) None None None None True) \<and>
   Canvas_width_pixels (Canvas_set_width 800
       (Canvas_init batch_toolkit default_style (Some 500) (Some 400) None None None None True)) = 800"
  using Canvas_set_width_spec [of "Canvas_init windowed_toolkit default_style (Some 500) (Some 400) None None None None False" 800]
        Canvas_set_width_spec [of "Canvas_init batch_toolkit default_style (Some 500) (Some 400) None None None None True" 800]
  by (simp add: Canvas_init_def Canvas_set_width_def Canvas_width_pixels_def
      Canvas_height_pixels_def TCanvas_init_def
      IsBatch_def TCanvas_GetWw_def TCanvas_GetWh_def SetCanvasSize_def SetWindowSize_def Let_def
      getattr_size_includes_decorations_def batch_toolkit_def windowed_toolkit_def default_style_def)

text \<open>
  Claim C8 as the spec words it, for every constructed canvas, fails for a canvas with a
  window that was built with \<open>size_includes_decorations\<close> true: the width given is then
  the width of the window, decorations included. With decorations of 4 by 28 pixels,
  assigning \<open>width = 800\<close> gives a paintable width of 796, and the paintable height goes
  from 372 to 344.
\<close>

theorem Canvas_set_width_counterexample:
  "Canvas_height_pixels
     (Canvas_init windowed_toolkit default_style (Some 500) (Some 400) None None None None True) = 372 \<and>
   Canvas_width_pixels (Canvas_set_width 800
     (Canvas_init windowed_toolkit default_style (Some 500) (Some 400) None None None None True)) = 796 \<and>
   Canvas_height_pixels (Canvas_set_width 800
     (Canvas_init windowed_toolkit default_style (Some 500) (Some 400) None None None None True)) = 344"
  by (simp add: Canvas_init_def Canvas_set_width_def Canvas_width_pixels_def Canvas_height_pixels_def
      TCanvas_init_def IsBatch_def TCanvas_GetWw_def TCanvas_GetWh_def SetCanvasSize_def
      SetWindowSize_def Let_def getattr_size_includes_decorations_def windowed_toolkit_def
      default_style_def)

end
